theory Spec2Isabelle
  imports Complex_Main "HOL-Library.Log_Nat"
begin

section \<open>The Oyster card of \<^verbatim>\<open>src/index.ts\<close>\<close>

text \<open>
  The card is a class with two private fields, a balance and the journey in progress. Its
  methods mutate the fields and throw \<^verbatim>\<open>Error\<close>. In the model a method takes the
  card and returns the error thrown (if any) together with the card as the call leaves it,
  so that what a failed call has already written stays visible.
\<close>

subsection \<open>Numbers\<close>

text \<open>
  A JavaScript \<^verbatim>\<open>number\<close> is an IEEE 754 double: \<^verbatim>\<open>NaN\<close>, one of the two
  infinities, or a finite value, kept here as the rational it stands for (the two zeros
  are one value: the card only adds, subtracts and compares, which cannot tell them
  apart). Every sum and difference is rounded to the nearest double, ties to the even
  significand, as the processor does; a decimal literal of the source stands for the
  double nearest to it.
\<close>

datatype number = NaN | Infinity | NegInfinity | Finite rat

definition pow2 :: "int \<Rightarrow> rat" where
  "pow2 k = (if 0 \<le> k then 2 ^ nat k else 1 / 2 ^ nat (- k))"

text \<open>The binary exponent of a rational other than 0: \<open>pow2 e \<le> |x| < pow2 (e + 1)\<close>.\<close>

definition exponent :: "rat \<Rightarrow> int" where
  "exponent x =
    (if 1 \<le> \<bar>x\<bar> then bitlen \<lfloor>\<bar>x\<bar>\<rfloor> - 1
     else - bitlen (\<lceil>1 / \<bar>x\<bar>\<rceil> - 1))"

definition roundHalfEven :: "rat \<Rightarrow> int" where
  "roundHalfEven x =
    (let f = \<lfloor>x\<rfloor>; d = x - of_int f
     in if d < 1 / 2 then f else if 1 / 2 < d then f + 1 else if even f then f else f + 1)"

text \<open>
  The double nearest to a rational. Doubles with exponent \<open>e\<close> are the multiples of
  \<open>pow2 (e - 52)\<close>; below \<open>pow2 (- 1022)\<close> the spacing stays that of the exponent -1022
  (the subnormal numbers), and a result that reaches \<open>pow2 1024\<close> is an infinity.
\<close>

definition double :: "rat \<Rightarrow> number" where
  "double x =
    (if x = 0 then Finite 0
     else
       let e = max (exponent x) (- 1022);
           q = pow2 (e - 52);
           r = of_int (roundHalfEven (x / q)) * q
       in if pow2 1024 \<le> \<bar>r\<bar> then (if 0 < x then Infinity else NegInfinity)
          else Finite r)"

text \<open>The operators \<^verbatim>\<open>+\<close>, \<^verbatim>\<open>-\<close> and \<^verbatim>\<open><\<close> on numbers.\<close>

fun num_add :: "number \<Rightarrow> number \<Rightarrow> number" where
  "num_add (Finite x) (Finite y) = double (x + y)"
| "num_add NaN b = NaN"
| "num_add a NaN = NaN"
| "num_add Infinity NegInfinity = NaN"
| "num_add NegInfinity Infinity = NaN"
| "num_add Infinity b = Infinity"
| "num_add NegInfinity b = NegInfinity"
| "num_add (Finite x) b = b"

fun num_sub :: "number \<Rightarrow> number \<Rightarrow> number" where
  "num_sub (Finite x) (Finite y) = double (x - y)"
| "num_sub NaN b = NaN"
| "num_sub a NaN = NaN"
| "num_sub Infinity Infinity = NaN"
| "num_sub NegInfinity NegInfinity = NaN"
| "num_sub Infinity b = Infinity"
| "num_sub NegInfinity b = NegInfinity"
| "num_sub (Finite x) Infinity = NegInfinity"
| "num_sub (Finite x) NegInfinity = Infinity"

fun num_lt :: "number \<Rightarrow> number \<Rightarrow> bool" where
  "num_lt (Finite x) (Finite y) = (x < y)"
| "num_lt NegInfinity (Finite y) = True"
| "num_lt NegInfinity Infinity = True"
| "num_lt (Finite x) Infinity = True"
| "num_lt a b = False"

text \<open>
  By how much a balance has changed, as an exact number, when the balance before and
  the balance after are both finite.
\<close>

fun balanceChange :: "number \<Rightarrow> number \<Rightarrow> rat option" where
  "balanceChange (Finite x) (Finite y) = Some (y - x)"
| "balanceChange a b = None"

subsection \<open>Data\<close>

datatype TransportType = BUS | TUBE

text \<open>A station of the directory; a zone number is an \<^typ>\<open>int\<close>.\<close>

record Station =
  name :: string
  zones :: "int list"

text \<open>The fields \<^verbatim>\<open>from\<close>, \<^verbatim>\<open>to\<close> and \<^verbatim>\<open>type\<close> of the interface \<^verbatim>\<open>Journey\<close>.\<close>

record Journey =
  jfrom :: string
  jto :: "string option"
  jtype :: TransportType

definition stations :: "Station list" where
  "stations =
    [ \<lparr>name = ''Holburn'', zones = [1]\<rparr>,
      \<lparr>name = ''Chelsea'', zones = [1]\<rparr>,
      \<lparr>name = ''Earl's Court'', zones = [1, 2]\<rparr>,
      \<lparr>name = ''Wimbledon'', zones = [3]\<rparr>,
      \<lparr>name = ''Hammersmith'', zones = [2]\<rparr>,
      \<lparr>name = ''Southfields'', zones = [3]\<rparr>,
      \<lparr>name = ''Any Station'', zones = [1]\<rparr>,
      \<lparr>name = ''Another Station'', zones = [1]\<rparr>,
      \<lparr>name = ''Final Station'', zones = [1]\<rparr> ]"

record TubeFares =
  zone1Only :: rat
  oneZoneOutsideZone1 :: rat
  twoZonesIncludingZone1 :: rat
  twoZonesExcludingZone1 :: rat
  threeZones :: rat

text \<open>
  The object \<^verbatim>\<open>fares\<close>; its field \<^verbatim>\<open>max\<close> is \<open>maxFare\<close> here. The table keeps
  the decimal literals as they are written; \<open>double\<close> is applied where the card
  computes with one of them. \<^verbatim>\<open>calculateTubeFare\<close> only compares fares, and the five
  tube fares are in the same order as doubles.
\<close>

record Fares =
  bus :: rat
  maxFare :: rat
  tube :: TubeFares

definition fares :: Fares where
  "fares =
    \<lparr> bus = 1.80,
      maxFare = 3.20,
      tube =
        \<lparr> zone1Only = 2.50,
          oneZoneOutsideZone1 = 2.00,
          twoZonesIncludingZone1 = 3.00,
          twoZonesExcludingZone1 = 2.25,
          threeZones = 3.20 \<rparr> \<rparr>"

record OysterCard =
  balance :: number
  currentJourney :: "Journey option"

text \<open>
  What a method throws. The source throws \<^verbatim>\<open>Error\<close> with one of three messages;
  \<open>TypeError\<close> is what the runtime throws when \<^verbatim>\<open>calculateTubeFare\<close> reads
  \<^verbatim>\<open>zones\<close> of an undefined departure station.
\<close>

datatype error =
    StationNotFound string
  | InsufficientBalance
  | InvalidTapOut
  | TypeError

type_synonym outcome = "error option \<times> OysterCard"

subsection \<open>The fare of a tube journey\<close>

text \<open>The body of the inner loop of \<^verbatim>\<open>calculateTubeFare\<close>: the fare of one pair of zones.\<close>

definition zoneFare :: "int \<Rightarrow> int \<Rightarrow> rat" where
  "zoneFare fromZone toZone =
    (let journeySize = \<bar>fromZone - toZone\<bar> + 1;
         isZone1Involved = (fromZone = 1 \<or> toZone = 1)
     in if journeySize = 1 then
          (if isZone1Involved then zone1Only (tube fares)
           else oneZoneOutsideZone1 (tube fares))
        else if journeySize = 2 then
          (if isZone1Involved then twoZonesIncludingZone1 (tube fares)
           else twoZonesExcludingZone1 (tube fares))
        else threeZones (tube fares))"

text \<open>The two nested loops, pushing one fare per pair of zones.\<close>

definition possibleFares :: "Station \<Rightarrow> Station \<Rightarrow> rat list" where
  "possibleFares frm to =
    fold (\<lambda>fromZone acc.
            fold (\<lambda>toZone acc'. acc' @ [zoneFare fromZone toZone]) (zones to) acc)
         (zones frm) []"

text \<open>\<^verbatim>\<open>Math.min(...xs)\<close>: with no argument it is \<^verbatim>\<open>Infinity\<close>, here \<open>None\<close>.\<close>

fun Math_min :: "rat list \<Rightarrow> rat option" where
  "Math_min [] = None"
| "Math_min (x # xs) = Some (fold min xs x)"

definition calculateTubeFare :: "Station \<Rightarrow> Station \<Rightarrow> rat option" where
  "calculateTubeFare frm to = Math_min (possibleFares frm to)"

subsection \<open>The methods of the card\<close>

definition newOysterCard :: "number \<Rightarrow> OysterCard" where
  "newOysterCard initialBalance = \<lparr>balance = initialBalance, currentJourney = None\<rparr>"

definition load :: "number \<Rightarrow> OysterCard \<Rightarrow> outcome" where
  "load amount c = (None, c\<lparr>balance := num_add (balance c) amount\<rparr>)"

definition deductFare :: "number \<Rightarrow> OysterCard \<Rightarrow> outcome" where
  "deductFare amount c =
    (if num_lt (balance c) amount then (Some InsufficientBalance, c)
     else (None, c\<lparr>balance := num_sub (balance c) amount\<rparr>))"

definition adjustFare :: "number \<Rightarrow> OysterCard \<Rightarrow> outcome" where
  "adjustFare refund c = (None, c\<lparr>balance := num_add (balance c) refund\<rparr>)"

text \<open>
  The number that \<^verbatim>\<open>calculateTubeFare\<close> returns: the double of the least fare, and
  \<^verbatim>\<open>Infinity\<close> when there is no fare.
\<close>

definition fareNumber :: "rat option \<Rightarrow> number" where
  "fareNumber r = (case r of None \<Rightarrow> Infinity | Some fare \<Rightarrow> double fare)"

definition findStation :: "string \<Rightarrow> Station option" where
  "findStation stationName = find (\<lambda>s. name s = stationName) stations"

definition tapIn :: "string \<Rightarrow> TransportType \<Rightarrow> OysterCard \<Rightarrow> outcome" where
  "tapIn stationName type c =
    (case findStation stationName of
       None \<Rightarrow> (Some (StationNotFound stationName), c)
     | Some station \<Rightarrow>
         (case type of
            TUBE \<Rightarrow>
              (case deductFare (double (maxFare fares)) c of
                 (Some e, c') \<Rightarrow> (Some e, c')
               | (None, c') \<Rightarrow>
                   (None, c'\<lparr>currentJourney :=
                               Some \<lparr>jfrom = stationName, jto = None, jtype = type\<rparr>\<rparr>))
          | BUS \<Rightarrow> deductFare (double (bus fares)) c))"

definition tapOut :: "string \<Rightarrow> OysterCard \<Rightarrow> outcome" where
  "tapOut stationName c =
    (case currentJourney c of
       None \<Rightarrow> (Some InvalidTapOut, c)
     | Some j \<Rightarrow>
         if jtype j \<noteq> TUBE then (Some InvalidTapOut, c)
         else
           (let departureStation = findStation (jfrom j);
                arrivalStation = findStation stationName
            in case arrivalStation of
                 None \<Rightarrow> (Some (StationNotFound stationName), c)
               | Some arrival \<Rightarrow>
                   (case departureStation of
                      None \<Rightarrow> (Some TypeError, c)
                    | Some departure \<Rightarrow>
                        (let fare = fareNumber (calculateTubeFare departure arrival)
                         in case adjustFare (num_sub (double (maxFare fares)) fare) c of
                              (r, c') \<Rightarrow> (r, c'\<lparr>currentJourney := None\<rparr>)))))"

definition getBalance :: "OysterCard \<Rightarrow> number" where
  "getBalance c = balance c"

subsection \<open>Sequences of calls\<close>

text \<open>
  A caller makes one call after another on the same card and catches what is thrown, as
  the script at the end of the source does. \<open>run\<close> returns the card after the calls and
  the calls made with what each threw, the most recent first.
\<close>

datatype call = Load number | TapIn string TransportType | TapOut string

fun step :: "call \<Rightarrow> OysterCard \<Rightarrow> outcome" where
  "step (Load amount) c = load amount c"
| "step (TapIn stationName type) c = tapIn stationName type c"
| "step (TapOut stationName) c = tapOut stationName c"

type_synonym history = "(call \<times> error option) list"

fun run :: "call list \<Rightarrow> history \<times> OysterCard \<Rightarrow> history \<times> OysterCard" where
  "run [] hc = hc"
| "run (k # ks) (h, c) = (case step k c of (r, c') \<Rightarrow> run ks ((k, r) # h, c'))"

text \<open>
  Looking back from the most recent call: the first call that returned and was either a
  tube tap-in or a tap-out is a tube tap-in.
\<close>

fun tubeTapInPending :: "history \<Rightarrow> bool" where
  "tubeTapInPending [] = False"
| "tubeTapInPending ((TapIn s TUBE, None) # h) = True"
| "tubeTapInPending ((TapOut s, None) # h) = False"
| "tubeTapInPending (e # h) = tubeTapInPending h"

text \<open>The guard of \<^verbatim>\<open>tapOut\<close>, negated: a journey is open and it is a tube journey.\<close>

definition inTubeJourney :: "OysterCard \<Rightarrow> bool" where
  "inTubeJourney c = (case currentJourney c of None \<Rightarrow> False | Some j \<Rightarrow> jtype j = TUBE)"

text \<open>What the history says of the card: a journey is held exactly when a tube tap-in is pending.\<close>

definition journeyMatches :: "history \<Rightarrow> OysterCard \<Rightarrow> bool" where
  "journeyMatches h c =
    (case currentJourney c of
       None \<Rightarrow> \<not> tubeTapInPending h
     | Some j \<Rightarrow> tubeTapInPending h \<and> jtype j = TUBE)"




subsection \<open>The specification's words\<close>

text \<open>
  The fare resolver as the specification describes it: the span of a pair of zones,
  whether zone 1 is one of the two, the table of five tiers keyed by both (a span below 1,
  which no pair of zones has, is given 0), and the minimum over the product of the two
  zone sets.
\<close>

definition spec_span :: "int \<Rightarrow> int \<Rightarrow> int" where
  "spec_span originZone destinationZone = \<bar>originZone - destinationZone\<bar> + 1"

definition spec_involvesZone1 :: "int \<Rightarrow> int \<Rightarrow> bool" where
  "spec_involvesZone1 originZone destinationZone = (originZone = 1 \<or> destinationZone = 1)"

definition spec_fareTier :: "int \<Rightarrow> bool \<Rightarrow> rat" where
  "spec_fareTier spanSize zone1 =
    (if spanSize = 1 \<and> zone1 then zone1Only (tube fares)
     else if spanSize = 1 \<and> \<not> zone1 then oneZoneOutsideZone1 (tube fares)
     else if spanSize = 2 \<and> zone1 then twoZonesIncludingZone1 (tube fares)
     else if spanSize = 2 \<and> \<not> zone1 then twoZonesExcludingZone1 (tube fares)
     else if spanSize \<ge> 3 then threeZones (tube fares)
     else 0)"

definition spec_resolveTubeFare :: "Station \<Rightarrow> Station \<Rightarrow> rat" where
  "spec_resolveTubeFare origin destination =
    Min ((\<lambda>(originZone, destinationZone).
            spec_fareTier (spec_span originZone destinationZone)
                          (spec_involvesZone1 originZone destinationZone))
         ` (set (zones origin) \<times> set (zones destination)))"

text \<open>
  Invariant I1 as the specification words it: the most recent tap-in that returned was a
  tube tap-in, and no tap-out has returned since.
\<close>

fun spec_lastTapInOpenTube :: "history \<Rightarrow> bool" where
  "spec_lastTapInOpenTube [] = False"
| "spec_lastTapInOpenTube ((TapIn s TUBE, None) # h) = True"
| "spec_lastTapInOpenTube ((TapIn s BUS, None) # h) = False"
| "spec_lastTapInOpenTube ((TapOut s, None) # h) = False"
| "spec_lastTapInOpenTube (e # h) = spec_lastTapInOpenTube h"

section \<open>The fare resolver\<close>

subsection \<open>The loops as a list\<close>

lemma fold_push: "fold (\<lambda>x acc. acc @ [f x]) xs acc = acc @ map f xs"
  by (induction xs arbitrary: acc) simp_all

lemma fold_push_rows: "fold (\<lambda>x acc. acc @ g x) xs acc = acc @ concat (map g xs)"
  by (induction xs arbitrary: acc) simp_all

lemma possibleFares_concat:
  "possibleFares frm to = concat (map (\<lambda>a. map (zoneFare a) (zones to)) (zones frm))"
  unfolding possibleFares_def fold_push by (simp add: fold_push_rows)

lemma set_possibleFares:
  "set (possibleFares frm to) = (\<lambda>(a, b). zoneFare a b) ` (set (zones frm) \<times> set (zones to))"
  by (auto simp: possibleFares_concat)

lemma possibleFares_Nil:
  "possibleFares frm to = [] \<longleftrightarrow> zones frm = [] \<or> zones to = []"
proof -
  have "possibleFares frm to = [] \<longleftrightarrow> set (possibleFares frm to) = {}" by simp
  also have "\<dots> \<longleftrightarrow> zones frm = [] \<or> zones to = []"
    unfolding set_possibleFares by auto
  finally show ?thesis .
qed

lemma Math_min_Min: "xs \<noteq> [] \<Longrightarrow> Math_min xs = Some (Min (set xs))"
  by (cases xs) (simp_all add: Min.set_eq_fold del: set_simps)

subsection \<open>One pair of zones\<close>

lemma zoneFare_spec:
  "zoneFare a b = spec_fareTier (spec_span a b) (spec_involvesZone1 a b)"
  by (auto simp: zoneFare_def spec_fareTier_def spec_span_def spec_involvesZone1_def Let_def)

lemma zoneFare_sym: "zoneFare a b = zoneFare b a"
  by (simp add: zoneFare_def Let_def abs_minus_commute disj_commute)


subsection \<open>The minimum over the pairs of zones\<close>

text \<open>
  C2. For two stations that each have a zone, \<^verbatim>\<open>calculateTubeFare\<close> returns the
  minimum, over the product of the two zone sets, of the tier fare that the span
  \<open>|originZone - destinationZone| + 1\<close> and the presence of zone 1 among the two zones
  select in the table of five tiers.
\<close>

theorem calculateTubeFare_is_min:
  "zones A \<noteq> [] \<Longrightarrow> zones B \<noteq> [] \<Longrightarrow>
     calculateTubeFare A B = Some (spec_resolveTubeFare A B)"
proof -
  assume ne: "zones A \<noteq> []" "zones B \<noteq> []"
  then have "possibleFares A B \<noteq> []" by (simp add: possibleFares_Nil)
  then have "calculateTubeFare A B = Some (Min (set (possibleFares A B)))"
    unfolding calculateTubeFare_def by (rule Math_min_Min)
  also have "set (possibleFares A B) =
      (\<lambda>(a, b). spec_fareTier (spec_span a b) (spec_involvesZone1 a b))
        ` (set (zones A) \<times> set (zones B))"
    unfolding set_possibleFares by (intro image_cong refl) (auto simp: zoneFare_spec)
  finally show ?thesis by (simp add: spec_resolveTubeFare_def)
qed

text \<open>
  From Earl's Court, in zones 1 and 2, to Wimbledon, in zone 3, the fare is that of
  zone 2 to zone 3.
\<close>

theorem calculateTubeFare_is_min_witness:
  "zones \<lparr>name = ''Earl's Court'', zones = [1, 2]\<rparr> \<noteq> []
   \<and> zones \<lparr>name = ''Wimbledon'', zones = [3]\<rparr> \<noteq> []
   \<and> calculateTubeFare \<lparr>name = ''Earl's Court'', zones = [1, 2]\<rparr>
                        \<lparr>name = ''Wimbledon'', zones = [3]\<rparr>
       = Some (spec_resolveTubeFare \<lparr>name = ''Earl's Court'', zones = [1, 2]\<rparr>
                                    \<lparr>name = ''Wimbledon'', zones = [3]\<rparr>)
   \<and> spec_resolveTubeFare \<lparr>name = ''Earl's Court'', zones = [1, 2]\<rparr>
                          \<lparr>name = ''Wimbledon'', zones = [3]\<rparr> = 2.25"
  using calculateTubeFare_is_min [of "\<lparr>name = ''Earl's Court'', zones = [1, 2]\<rparr>"
      "\<lparr>name = ''Wimbledon'', zones = [3]\<rparr>"]
  by (simp add: spec_resolveTubeFare_def spec_fareTier_def spec_span_def
      spec_involvesZone1_def fares_def)

lemma possibleFares_set_commute: "set (possibleFares A B) = set (possibleFares B A)"
  unfolding set_possibleFares using zoneFare_sym by (auto simp: image_iff) blast+

text \<open>
  C9. \<^verbatim>\<open>calculateTubeFare\<close> is commutative: the fare from A to B is the fare from B
  to A. It holds for all stations, the ones with a zone in particular (with no zone on
  either side both calls give \<^verbatim>\<open>Infinity\<close>).
\<close>

theorem calculateTubeFare_commutes: "calculateTubeFare A B = calculateTubeFare B A"
proof (cases "possibleFares A B = []")
  case True
  then have "possibleFares B A = []" by (auto simp: possibleFares_Nil)
  with True show ?thesis by (simp add: calculateTubeFare_def)
next
  case False
  then have "possibleFares B A \<noteq> []" by (auto simp: possibleFares_Nil)
  with False show ?thesis
    by (simp add: calculateTubeFare_def Math_min_Min possibleFares_set_commute)
qed



section \<open>Numbers\<close>

subsection \<open>Evaluating a rounding\<close>

lemma floor_rat_numeral: "\<lfloor>numeral a / numeral b :: rat\<rfloor> = numeral a div numeral b"
  using floor_divide_of_int_eq [of "numeral a" "numeral b", where ?'a = rat] by simp

lemma floor_rat_neg_numeral:
  "\<lfloor>- (numeral a / numeral b) :: rat\<rfloor> = - numeral a div numeral b"
  using floor_divide_of_int_eq [of "- numeral a" "numeral b", where ?'a = rat] by simp

lemma ceiling_rat_numeral:
  "\<lceil>numeral a / numeral b :: rat\<rceil> = - (- numeral a div numeral b)"
  unfolding ceiling_def by (simp add: floor_rat_neg_numeral)

lemmas dbl = double_def exponent_def roundHalfEven_def pow2_def compute_bitlen Let_def
  floor_rat_numeral floor_rat_neg_numeral ceiling_rat_numeral

lemma num_add_NaN [simp]: "num_add a NaN = NaN"
  by (cases a) simp_all

lemma num_sub_NaN [simp]: "num_sub a NaN = NaN"
  by (cases a) simp_all

subsection \<open>The fares as doubles\<close>

lemma double_max: "double (maxFare fares) = Finite (3602879701896397 / 1125899906842624)"
  by (simp add: fares_def dbl)

lemma double_bus: "double (bus fares) = Finite (8106479329266893 / 4503599627370496)"
  by (simp add: fares_def dbl)

text \<open>The five tube fares keep their order when they are rounded.\<close>

lemma tube_fares_ordered:
  "num_lt (double (oneZoneOutsideZone1 (tube fares))) (double (twoZonesExcludingZone1 (tube fares)))
   \<and> num_lt (double (twoZonesExcludingZone1 (tube fares))) (double (zone1Only (tube fares)))
   \<and> num_lt (double (zone1Only (tube fares))) (double (twoZonesIncludingZone1 (tube fares)))
   \<and> num_lt (double (twoZonesIncludingZone1 (tube fares))) (double (threeZones (tube fares)))"
  by (simp add: fares_def dbl)



section \<open>The card\<close>

subsection \<open>The directory\<close>


lemma findStation_Holburn:
  "findStation ''Holburn'' = Some \<lparr>name = ''Holburn'', zones = [1]\<rparr>"
  by (simp add: findStation_def stations_def)

lemma findStation_Earls:
  "findStation ''Earl's Court'' = Some \<lparr>name = ''Earl's Court'', zones = [1, 2]\<rparr>"
  by (simp add: findStation_def stations_def)

lemma findStation_Chelsea:
  "findStation ''Chelsea'' = Some \<lparr>name = ''Chelsea'', zones = [1]\<rparr>"
  by (simp add: findStation_def stations_def)


lemma findStation_Nowhere: "findStation ''Nowhere'' = None"
  by (simp add: findStation_def stations_def)

lemma fare_Holburn_Earls:
  "calculateTubeFare \<lparr>name = ''Holburn'', zones = [1]\<rparr>
                     \<lparr>name = ''Earl's Court'', zones = [1, 2]\<rparr> = Some 2.5"
  by (simp add: calculateTubeFare_def possibleFares_def zoneFare_def fares_def)



subsection \<open>What a call that returns has done\<close>

lemma balance_new: "balance (newOysterCard b) = b"
  by (simp add: newOysterCard_def)

lemma tapIn_TUBE_ok:
  "tapIn a TUBE c = (None, c1) \<Longrightarrow>
     (\<exists>A. findStation a = Some A) \<and> \<not> num_lt (balance c) (double (maxFare fares))
     \<and> c1 = c\<lparr>balance := num_sub (balance c) (double (maxFare fares)),
               currentJourney := Some \<lparr>jfrom = a, jto = None, jtype = TUBE\<rparr>\<rparr>"
  by (auto simp: tapIn_def deductFare_def split: option.splits if_splits)

lemma tapOut_ok:
  "tapOut b c = (None, c2) \<Longrightarrow>
     \<exists>j A B. currentJourney c = Some j \<and> jtype j = TUBE
        \<and> findStation (jfrom j) = Some A \<and> findStation b = Some B
        \<and> c2 = c\<lparr>balance := num_add (balance c)
                     (num_sub (double (maxFare fares)) (fareNumber (calculateTubeFare A B))),
                  currentJourney := None\<rparr>"
  by (auto simp: tapOut_def adjustFare_def Let_def split: option.splits if_splits)

lemma tapOut_card: "tapOut s c = (r, c') \<Longrightarrow> r \<noteq> None \<Longrightarrow> c' = c"
  by (auto simp: tapOut_def adjustFare_def Let_def split: option.splits if_splits)

lemma tapIn_card: "tapIn s t c = (r, c') \<Longrightarrow> r \<noteq> None \<Longrightarrow> c' = c"
  by (auto simp: tapIn_def deductFare_def
      split: option.splits if_splits TransportType.splits)

lemma tapIn_BUS_journey: "currentJourney (snd (tapIn s BUS c)) = currentJourney c"
  by (simp add: tapIn_def deductFare_def split: option.splits)

lemma load_journey: "currentJourney (snd (load amount c)) = currentJourney c"
  by (simp add: load_def)

lemma tapIn_TUBE_journey:
  "tapIn s TUBE c = (None, c') \<Longrightarrow>
     currentJourney c' = Some \<lparr>jfrom = s, jto = None, jtype = TUBE\<rparr>"
  using tapIn_TUBE_ok [of s c c'] by simp

lemma tapOut_journey: "tapOut s c = (None, c') \<Longrightarrow> currentJourney c' = None"
  using tapOut_ok [of s c c'] by auto

lemma tapOut_not_in_journey:
  "\<not> inTubeJourney c \<Longrightarrow> tapOut s c = (Some InvalidTapOut, c)"
  by (auto simp: inTubeJourney_def tapOut_def split: option.splits)

subsection \<open>The calls of the script\<close>

lemma tapIn_Holburn_30:
  "tapIn ''Holburn'' TUBE (newOysterCard (Finite 30)) =
     (None, \<lparr>balance = double 26.8,
              currentJourney = Some \<lparr>jfrom = ''Holburn'', jto = None, jtype = TUBE\<rparr>\<rparr>)"
  by (simp add: tapIn_def findStation_Holburn deductFare_def newOysterCard_def double_max)
     (simp add: dbl)

lemma tapOut_Earls_after_Holburn:
  "tapOut ''Earl's Court''
      \<lparr>balance = double 26.8,
        currentJourney = Some \<lparr>jfrom = ''Holburn'', jto = None, jtype = TUBE\<rparr>\<rparr>
    = (None, \<lparr>balance = double 27.5, currentJourney = None\<rparr>)"
  by (simp add: tapOut_def findStation_Holburn findStation_Earls fare_Holburn_Earls
      adjustFare_def fareNumber_def double_max)
     (simp add: dbl)

lemma tapIn_Earls_after_Holburn:
  "tapIn ''Earl's Court'' TUBE
      \<lparr>balance = double 26.8,
        currentJourney = Some \<lparr>jfrom = ''Holburn'', jto = None, jtype = TUBE\<rparr>\<rparr>
    = (None, \<lparr>balance = double 23.6,
              currentJourney = Some \<lparr>jfrom = ''Earl's Court'', jto = None, jtype = TUBE\<rparr>\<rparr>)"
  by (simp add: tapIn_def findStation_Earls deductFare_def double_max)
     (simp add: dbl)

lemma tapIn_Chelsea_bus:
  "tapIn ''Chelsea'' BUS
      \<lparr>balance = double 26.8,
        currentJourney = Some \<lparr>jfrom = ''Holburn'', jto = None, jtype = TUBE\<rparr>\<rparr>
    = (None, \<lparr>balance = Finite 25,
              currentJourney = Some \<lparr>jfrom = ''Holburn'', jto = None, jtype = TUBE\<rparr>\<rparr>)"
  by (simp add: tapIn_def findStation_Chelsea deductFare_def double_bus)
     (simp add: dbl)

lemma run_tube:
  "run [TapIn ''Holburn'' TUBE] ([], newOysterCard (Finite 30)) =
    ([(TapIn ''Holburn'' TUBE, None)],
     \<lparr>balance = double 26.8,
       currentJourney = Some \<lparr>jfrom = ''Holburn'', jto = None, jtype = TUBE\<rparr>\<rparr>)"
  by (simp only: run.simps step.simps tapIn_Holburn_30 prod.case)

lemma run_tube_then_bus:
  "run [TapIn ''Holburn'' TUBE, TapIn ''Chelsea'' BUS] ([], newOysterCard (Finite 30)) =
    ([(TapIn ''Chelsea'' BUS, None), (TapIn ''Holburn'' TUBE, None)],
     \<lparr>balance = Finite 25,
       currentJourney = Some \<lparr>jfrom = ''Holburn'', jto = None, jtype = TUBE\<rparr>\<rparr>)"
  by (simp only: run.simps step.simps tapIn_Holburn_30 tapIn_Chelsea_bus prod.case)

subsection \<open>A tube tap-in during a tube journey\<close>

text \<open>
  C1 asks that a tube tap-in made while a tube journey is open be refused, with the
  balance and the open journey left as they were. The source has no such check. On a card
  loaded with 30, a tube tap-in at Holburn followed by a tube tap-in at Earl's Court both
  return: the second debits the maximum fare once more (30, then 26.8, then 23.6) and
  replaces the journey from Holburn by one from Earl's Court. The script of the source
  expects the second tap-in to throw; the call it makes throws only because the station
  name it passes, written with a double quote, is not in the directory.
\<close>

theorem second_tube_tapIn_accepted:
  "run [TapIn ''Holburn'' TUBE, TapIn ''Earl's Court'' TUBE] ([], newOysterCard (Finite 30)) =
    ([(TapIn ''Earl's Court'' TUBE, None), (TapIn ''Holburn'' TUBE, None)],
     \<lparr>balance = double 23.6,
       currentJourney = Some \<lparr>jfrom = ''Earl's Court'', jto = None, jtype = TUBE\<rparr>\<rparr>)
   \<and> run [TapIn ''Holburn'' TUBE, TapIn ''Earl\"s Court'' TUBE] ([], newOysterCard (Finite 30)) =
    ([(TapIn ''Earl\"s Court'' TUBE, Some (StationNotFound ''Earl\"s Court'')),
      (TapIn ''Holburn'' TUBE, None)],
     \<lparr>balance = double 26.8,
       currentJourney = Some \<lparr>jfrom = ''Holburn'', jto = None, jtype = TUBE\<rparr>\<rparr>)"
proof
  show "run [TapIn ''Holburn'' TUBE, TapIn ''Earl's Court'' TUBE] ([], newOysterCard (Finite 30)) =
    ([(TapIn ''Earl's Court'' TUBE, None), (TapIn ''Holburn'' TUBE, None)],
     \<lparr>balance = double 23.6,
       currentJourney = Some \<lparr>jfrom = ''Earl's Court'', jto = None, jtype = TUBE\<rparr>\<rparr>)"
    by (simp only: run.simps step.simps tapIn_Holburn_30 tapIn_Earls_after_Holburn prod.case)
next
  have "findStation ''Earl\"s Court'' = None"
    by (simp add: findStation_def stations_def)
  then have "tapIn ''Earl\"s Court'' TUBE
      \<lparr>balance = double 26.8,
        currentJourney = Some \<lparr>jfrom = ''Holburn'', jto = None, jtype = TUBE\<rparr>\<rparr>
    = (Some (StationNotFound ''Earl\"s Court''),
       \<lparr>balance = double 26.8,
         currentJourney = Some \<lparr>jfrom = ''Holburn'', jto = None, jtype = TUBE\<rparr>\<rparr>)"
    by (simp add: tapIn_def)
  then show "run [TapIn ''Holburn'' TUBE, TapIn ''Earl\"s Court'' TUBE]
      ([], newOysterCard (Finite 30)) =
    ([(TapIn ''Earl\"s Court'' TUBE, Some (StationNotFound ''Earl\"s Court'')),
      (TapIn ''Holburn'' TUBE, None)],
     \<lparr>balance = double 26.8,
       currentJourney = Some \<lparr>jfrom = ''Holburn'', jto = None, jtype = TUBE\<rparr>\<rparr>)"
    by (simp only: run.simps step.simps tapIn_Holburn_30 prod.case)
qed

subsection \<open>The cost of a tube journey\<close>






subsection \<open>Debits\<close>

text \<open>
  C4. A debit of any amount \<open>d\<close> on a card whose balance is below \<open>d\<close> throws
  \<^verbatim>\<open>Insufficient balance.\<close> and leaves the card as it was. So does a tube tap-in at a
  station of the directory when the balance is below the maximum fare, and a bus tap-in
  when it is below the bus fare: balance and journey are those before the call.
\<close>

theorem debit_all_or_nothing:
  "(num_lt (balance c) d \<longrightarrow> deductFare d c = (Some InsufficientBalance, c))
   \<and> (findStation s = Some st \<and> num_lt (balance c) (double (maxFare fares)) \<longrightarrow>
        tapIn s TUBE c = (Some InsufficientBalance, c))
   \<and> (findStation s = Some st \<and> num_lt (balance c) (double (bus fares)) \<longrightarrow>
        tapIn s BUS c = (Some InsufficientBalance, c))"
  by (simp add: deductFare_def tapIn_def)

text \<open>The card of the script that holds 2, and a card that holds 1.\<close>

theorem debit_all_or_nothing_witness:
  "num_lt (balance (newOysterCard (Finite 2))) (double 3.2)
   \<and> deductFare (double 3.2) (newOysterCard (Finite 2))
       = (Some InsufficientBalance, newOysterCard (Finite 2))
   \<and> findStation ''Holburn'' = Some \<lparr>name = ''Holburn'', zones = [1]\<rparr>
   \<and> num_lt (balance (newOysterCard (Finite 2))) (double (maxFare fares))
   \<and> tapIn ''Holburn'' TUBE (newOysterCard (Finite 2))
       = (Some InsufficientBalance, newOysterCard (Finite 2))
   \<and> num_lt (balance (newOysterCard (Finite 1))) (double (bus fares))
   \<and> tapIn ''Holburn'' BUS (newOysterCard (Finite 1))
       = (Some InsufficientBalance, newOysterCard (Finite 1))"
proof -
  have a: "num_lt (balance (newOysterCard (Finite 2))) (double 3.2)"
    "num_lt (balance (newOysterCard (Finite 2))) (double (maxFare fares))"
    "num_lt (balance (newOysterCard (Finite 1))) (double (bus fares))"
    by (simp_all add: balance_new fares_def dbl)
  from a findStation_Holburn
    debit_all_or_nothing [of "newOysterCard (Finite 2)" "double 3.2" "''Holburn''"
      "\<lparr>name = ''Holburn'', zones = [1]\<rparr>"]
    debit_all_or_nothing [of "newOysterCard (Finite 1)" "double 3.2" "''Holburn''"
      "\<lparr>name = ''Holburn'', zones = [1]\<rparr>"]
  show ?thesis by blast
qed

subsection \<open>The journey held and the calls made\<close>

lemma step_journeyMatches:
  assumes "journeyMatches h c" "step k c = (r, c')"
  shows "journeyMatches ((k, r) # h) c'"
proof (cases k)
  case (Load amount)
  with assms show ?thesis
    by (auto simp: journeyMatches_def load_def split: option.splits)
next
  case (TapIn s t)
  show ?thesis
  proof (cases r)
    case (Some e)
    with assms TapIn have "c' = c" using tapIn_card [of s t c r c'] by simp
    with assms(1) Some TapIn show ?thesis
      by (cases t) (auto simp: journeyMatches_def split: option.splits)
  next
    case None
    show ?thesis
    proof (cases t)
      case BUS
      with assms TapIn have "currentJourney c' = currentJourney c"
        using tapIn_BUS_journey [of s c] by simp
      with assms(1) None TapIn BUS show ?thesis
        by (auto simp: journeyMatches_def split: option.splits)
    next
      case TUBE
      with assms TapIn None show ?thesis
        using tapIn_TUBE_ok [of s c c'] by (auto simp: journeyMatches_def)
    qed
  qed
next
  case (TapOut s)
  show ?thesis
  proof (cases r)
    case (Some e)
    with assms TapOut have "c' = c" using tapOut_card [of s c r c'] by simp
    with assms(1) Some TapOut show ?thesis
      by (auto simp: journeyMatches_def split: option.splits)
  next
    case None
    with assms TapOut show ?thesis
      using tapOut_ok [of s c c'] by (auto simp: journeyMatches_def)
  qed
qed

lemma run_journeyMatches:
  "journeyMatches h c \<Longrightarrow> run ks (h, c) = (h', c') \<Longrightarrow> journeyMatches h' c'"
proof (induction ks arbitrary: h c)
  case Nil
  then show ?case by simp
next
  case (Cons k ks)
  obtain r c1 where s: "step k c = (r, c1)" by (cases "step k c")
  with Cons.prems(2) have "run ks ((k, r) # h, c1) = (h', c')" by simp
  moreover from Cons.prems(1) s have "journeyMatches ((k, r) # h) c1"
    by (rule step_journeyMatches)
  ultimately show ?case by (rule Cons.IH [rotated])
qed

lemma new_journeyMatches: "journeyMatches [] (newOysterCard b)"
  by (simp add: journeyMatches_def newOysterCard_def)

lemma reachable_journeyMatches:
  "run ks ([], newOysterCard b) = (h, c) \<Longrightarrow> journeyMatches h c"
  using new_journeyMatches by (rule run_journeyMatches)

text \<open>
  C5. On a card that is not in a tube journey, \<^verbatim>\<open>tapOut\<close> at any station throws
  \<^verbatim>\<open>Invalid tap out.\<close> and leaves balance and journey as they were. After any sequence
  of calls on a new card: when no tube tap-in is pending the tap-out is refused in that
  way, and a tap-out that returns was preceded by a tube tap-in that returned and that
  no returning tap-out has matched yet.
\<close>

theorem tapOut_needs_open_journey:
  "(\<not> inTubeJourney c \<longrightarrow> tapOut s c = (Some InvalidTapOut, c))
   \<and> (run ks ([], newOysterCard b) = (h, c') \<and> \<not> tubeTapInPending h \<longrightarrow>
        tapOut s c' = (Some InvalidTapOut, c'))
   \<and> (run ks ([], newOysterCard b) = (h, c') \<and> fst (tapOut s c') = None \<longrightarrow>
        tubeTapInPending h)"
proof (intro conjI impI)
  assume "\<not> inTubeJourney c"
  then show "tapOut s c = (Some InvalidTapOut, c)" by (rule tapOut_not_in_journey)
next
  assume "run ks ([], newOysterCard b) = (h, c') \<and> \<not> tubeTapInPending h"
  then have "\<not> inTubeJourney c'"
    using reachable_journeyMatches [of ks b h c']
    by (auto simp: journeyMatches_def inTubeJourney_def split: option.splits)
  then show "tapOut s c' = (Some InvalidTapOut, c')" by (rule tapOut_not_in_journey)
next
  assume a: "run ks ([], newOysterCard b) = (h, c') \<and> fst (tapOut s c') = None"
  then have "inTubeJourney c'"
    using tapOut_not_in_journey [of c' s] by (cases "inTubeJourney c'") auto
  with a show "tubeTapInPending h"
    using reachable_journeyMatches [of ks b h c']
    by (auto simp: journeyMatches_def inTubeJourney_def split: option.splits)
qed

text \<open>A new card refuses the tap-out; after a tube tap-in at Holburn it accepts one.\<close>

theorem tapOut_needs_open_journey_witness:
  "\<not> inTubeJourney (newOysterCard (Finite 30))
   \<and> tapOut ''Holburn'' (newOysterCard (Finite 30)) = (Some InvalidTapOut, newOysterCard (Finite 30))
   \<and> run [] ([], newOysterCard (Finite 30)) = ([], newOysterCard (Finite 30)) \<and> \<not> tubeTapInPending []
   \<and> run [TapIn ''Holburn'' TUBE] ([], newOysterCard (Finite 30)) =
       ([(TapIn ''Holburn'' TUBE, None)],
        \<lparr>balance = double 26.8,
          currentJourney = Some \<lparr>jfrom = ''Holburn'', jto = None, jtype = TUBE\<rparr>\<rparr>)
   \<and> fst (tapOut ''Earl's Court''
        \<lparr>balance = double 26.8,
          currentJourney = Some \<lparr>jfrom = ''Holburn'', jto = None, jtype = TUBE\<rparr>\<rparr>) = None
   \<and> tubeTapInPending [(TapIn ''Holburn'' TUBE, None)]"
proof -
  have a: "\<not> inTubeJourney (newOysterCard (Finite 30))"
    by (simp add: inTubeJourney_def newOysterCard_def)
  have b: "run [] ([], newOysterCard (Finite 30)) = ([], newOysterCard (Finite 30)) \<and> \<not> tubeTapInPending []"
    by simp
  have c: "fst (tapOut ''Earl's Court''
        \<lparr>balance = double 26.8,
          currentJourney = Some \<lparr>jfrom = ''Holburn'', jto = None, jtype = TUBE\<rparr>\<rparr>) = None"
    by (simp only: tapOut_Earls_after_Holburn fst_conv)
  from a b c run_tube
    tapOut_needs_open_journey [of "newOysterCard (Finite 30)" "''Holburn''" "[]" "Finite 30" "[]"
      "newOysterCard (Finite 30)"]
    tapOut_needs_open_journey [of "newOysterCard (Finite 30)" "''Earl's Court''"
      "[TapIn ''Holburn'' TUBE]" "Finite 30" "[(TapIn ''Holburn'' TUBE, None)]"
      "\<lparr>balance = double 26.8,
         currentJourney = Some \<lparr>jfrom = ''Holburn'', jto = None, jtype = TUBE\<rparr>\<rparr>"]
  show ?thesis by blast
qed

text \<open>
  C6 as it is worded fails. On a card loaded with 30, a tube tap-in at Holburn followed
  by a bus tap-in at Chelsea leaves the journey from Holburn open, although the most
  recent tap-in is a bus tap-in and not a tube tap-in.
\<close>

theorem bus_tap_after_tube_tap_counterexample:
  "currentJourney
      (snd (run [TapIn ''Holburn'' TUBE, TapIn ''Chelsea'' BUS] ([], newOysterCard (Finite 30))))
     \<noteq> None
   \<and> \<not> spec_lastTapInOpenTube
        (fst (run [TapIn ''Holburn'' TUBE, TapIn ''Chelsea'' BUS] ([], newOysterCard (Finite 30))))"
  by (simp only: run_tube_then_bus snd_conv fst_conv) simp

text \<open>
  C6, amended. After any sequence of calls on a new card, the card holds a journey if
  and only if, among the tube tap-ins and the tap-outs that returned, the most recent is a
  tube tap-in (bus tap-ins made since do not count). \<^verbatim>\<open>load\<close> and a bus tap-in never
  change the journey held, a tube tap-in that returns sets it to a journey from its
  station, and a tap-out that returns clears it. The field holds one journey or none, so
  at most one journey is open.
\<close>

theorem open_journey_iff_tube_pending:
  "(run ks ([], newOysterCard b) = (h, c) \<longrightarrow>
      (currentJourney c \<noteq> None) = tubeTapInPending h)
   \<and> currentJourney (snd (load amount d)) = currentJourney d
   \<and> currentJourney (snd (tapIn s BUS d)) = currentJourney d
   \<and> (tapIn s TUBE d = (None, d') \<longrightarrow>
        currentJourney d' = Some \<lparr>jfrom = s, jto = None, jtype = TUBE\<rparr>)
   \<and> (tapOut s d = (None, d') \<longrightarrow> currentJourney d' = None)"
proof (intro conjI impI)
  assume "run ks ([], newOysterCard b) = (h, c)"
  then have "journeyMatches h c" by (rule reachable_journeyMatches)
  then show "(currentJourney c \<noteq> None) = tubeTapInPending h"
    by (auto simp: journeyMatches_def split: option.splits)
qed (simp_all add: load_journey tapIn_BUS_journey tapIn_TUBE_journey tapOut_journey)

text \<open>The tube tap-in followed by the bus tap-in, and the first journey of the script.\<close>

theorem open_journey_iff_tube_pending_witness:
  "run [TapIn ''Holburn'' TUBE, TapIn ''Chelsea'' BUS] ([], newOysterCard (Finite 30)) =
    ([(TapIn ''Chelsea'' BUS, None), (TapIn ''Holburn'' TUBE, None)],
     \<lparr>balance = Finite 25,
       currentJourney = Some \<lparr>jfrom = ''Holburn'', jto = None, jtype = TUBE\<rparr>\<rparr>)
   \<and> (currentJourney
         \<lparr>balance = Finite 25,
           currentJourney = Some \<lparr>jfrom = ''Holburn'', jto = None, jtype = TUBE\<rparr>\<rparr> \<noteq> None)
       = tubeTapInPending [(TapIn ''Chelsea'' BUS, None), (TapIn ''Holburn'' TUBE, None)]
   \<and> tapIn ''Holburn'' TUBE (newOysterCard (Finite 30)) =
       (None, \<lparr>balance = double 26.8,
                currentJourney = Some \<lparr>jfrom = ''Holburn'', jto = None, jtype = TUBE\<rparr>\<rparr>)
   \<and> currentJourney
       \<lparr>balance = double 26.8,
         currentJourney = Some \<lparr>jfrom = ''Holburn'', jto = None, jtype = TUBE\<rparr>\<rparr>
       = Some \<lparr>jfrom = ''Holburn'', jto = None, jtype = TUBE\<rparr>
   \<and> tapOut ''Earl's Court''
       \<lparr>balance = double 26.8,
         currentJourney = Some \<lparr>jfrom = ''Holburn'', jto = None, jtype = TUBE\<rparr>\<rparr>
       = (None, \<lparr>balance = double 27.5, currentJourney = None\<rparr>)
   \<and> currentJourney \<lparr>balance = double 27.5, currentJourney = None\<rparr> = None"
  using run_tube_then_bus tapIn_Holburn_30 tapOut_Earls_after_Holburn
    open_journey_iff_tube_pending [of "[TapIn ''Holburn'' TUBE, TapIn ''Chelsea'' BUS]" "Finite 30"
      "[(TapIn ''Chelsea'' BUS, None), (TapIn ''Holburn'' TUBE, None)]"
      "\<lparr>balance = Finite 25,
         currentJourney = Some \<lparr>jfrom = ''Holburn'', jto = None, jtype = TUBE\<rparr>\<rparr>"
      "Finite 0" "newOysterCard (Finite 30)" "''Holburn''"
      "\<lparr>balance = double 26.8,
         currentJourney = Some \<lparr>jfrom = ''Holburn'', jto = None, jtype = TUBE\<rparr>\<rparr>"]
    open_journey_iff_tube_pending [of "[]" "Finite 30" "[]" "newOysterCard (Finite 30)" "Finite 0"
      "\<lparr>balance = double 26.8,
         currentJourney = Some \<lparr>jfrom = ''Holburn'', jto = None, jtype = TUBE\<rparr>\<rparr>"
      "''Earl's Court''" "\<lparr>balance = double 27.5, currentJourney = None\<rparr>"]
  by blast

subsection \<open>Bus tap-ins\<close>









subsection \<open>Station names that are not in the directory\<close>

text \<open>
  C8 as it is worded fails for \<^verbatim>\<open>tapOut\<close>: on a new card, a tap-out at a name that is
  not in the directory throws \<^verbatim>\<open>Invalid tap out.\<close>, since the journey is checked before
  the station is looked up.
\<close>

theorem tapOut_unknown_station_counterexample:
  "findStation ''Nowhere'' = None
   \<and> tapOut ''Nowhere'' (newOysterCard (Finite 30)) = (Some InvalidTapOut, newOysterCard (Finite 30))"
  by (simp add: findStation_Nowhere tapOut_def newOysterCard_def)

text \<open>
  C8, amended. For a station name that is not in the directory, \<^verbatim>\<open>tapIn\<close> of either
  transport type throws \<^verbatim>\<open>Station ... not found.\<close>; \<^verbatim>\<open>tapOut\<close> throws it when the card
  is in a tube journey and throws \<^verbatim>\<open>Invalid tap out.\<close> when it is not. In every case the
  balance and the journey are left as they were: the call fails before any debit or
  credit.
\<close>

theorem unknown_station_rejected:
  "findStation s = None \<Longrightarrow>
     tapIn s t c = (Some (StationNotFound s), c)
     \<and> tapOut s c = (Some (if inTubeJourney c then StationNotFound s else InvalidTapOut), c)"
  by (auto simp: tapIn_def tapOut_def inTubeJourney_def Let_def split: option.splits)

text \<open>A name that is not in the directory, on a new card and during a journey from Holburn.\<close>

theorem unknown_station_rejected_witness:
  "findStation ''Nowhere'' = None
   \<and> tapIn ''Nowhere'' TUBE (newOysterCard (Finite 30))
       = (Some (StationNotFound ''Nowhere''), newOysterCard (Finite 30))
   \<and> tapIn ''Nowhere'' BUS (newOysterCard (Finite 30))
       = (Some (StationNotFound ''Nowhere''), newOysterCard (Finite 30))
   \<and> tapOut ''Nowhere'' (newOysterCard (Finite 30)) = (Some InvalidTapOut, newOysterCard (Finite 30))
   \<and> tapOut ''Nowhere''
        \<lparr>balance = double 26.8,
          currentJourney = Some \<lparr>jfrom = ''Holburn'', jto = None, jtype = TUBE\<rparr>\<rparr>
       = (Some (StationNotFound ''Nowhere''),
          \<lparr>balance = double 26.8,
            currentJourney = Some \<lparr>jfrom = ''Holburn'', jto = None, jtype = TUBE\<rparr>\<rparr>)"
proof -
  have a: "\<not> inTubeJourney (newOysterCard (Finite 30))"
    by (simp add: inTubeJourney_def newOysterCard_def)
  have b: "inTubeJourney
      \<lparr>balance = double 26.8,
        currentJourney = Some \<lparr>jfrom = ''Holburn'', jto = None, jtype = TUBE\<rparr>\<rparr>"
    by (simp add: inTubeJourney_def)
  from a b findStation_Nowhere
    unknown_station_rejected [OF findStation_Nowhere, of TUBE "newOysterCard (Finite 30)"]
    unknown_station_rejected [OF findStation_Nowhere, of BUS "newOysterCard (Finite 30)"]
    unknown_station_rejected [OF findStation_Nowhere, of TUBE
      "\<lparr>balance = double 26.8,
         currentJourney = Some \<lparr>jfrom = ''Holburn'', jto = None, jtype = TUBE\<rparr>\<rparr>"]
  show ?thesis by simp
qed

subsection \<open>Load\<close>

lemma run_loads:
  "run (map Load amounts) (h, c) =
     (rev (map (\<lambda>a. (Load a, None)) amounts) @ h,
      c\<lparr>balance := foldl num_add (balance c) amounts\<rparr>)"
  by (induction amounts arbitrary: h c) (simp_all add: load_def)

text \<open>
  C10 as it is worded fails where it says that the balance becomes the balance plus
  the amount. On a card that holds 30, loading 0.00000000000000001, which is more than
  zero, leaves 30. On a card that holds 0.1, loading 0.2 leaves 0.30000000000000004,
  which is the balance plus more than the amount and is not the double of 0.3.
\<close>

theorem load_rounding_counterexample:
  "load (double 0.00000000000000001) (newOysterCard (Finite 30))
     = (None, newOysterCard (Finite 30))
   \<and> double 0.00000000000000001
       = Finite (6490371073168535 / 649037107316853453566312041152512)
   \<and> load (double 0.2) (newOysterCard (double 0.1))
       = (None, newOysterCard (double 0.30000000000000004))
   \<and> double 0.2 = Finite (7205759403792794 / 36028797018963968)
   \<and> balanceChange (double 0.1) (double 0.30000000000000004)
       = Some (7205759403792795 / 36028797018963968)
   \<and> double 0.30000000000000004 \<noteq> double 0.3"
proof (intro conjI)
  show "load (double 0.00000000000000001) (newOysterCard (Finite 30))
     = (None, newOysterCard (Finite 30))"
    by (simp add: load_def newOysterCard_def) (simp add: dbl)
  show "double 0.00000000000000001
       = Finite (6490371073168535 / 649037107316853453566312041152512)"
    by (simp add: dbl)
  show "load (double 0.2) (newOysterCard (double 0.1))
       = (None, newOysterCard (double 0.30000000000000004))"
    by (simp add: load_def newOysterCard_def) (simp add: dbl)
  show "double 0.2 = Finite (7205759403792794 / 36028797018963968)"
    by (simp add: dbl)
  show "balanceChange (double 0.1) (double 0.30000000000000004)
       = Some (7205759403792795 / 36028797018963968)"
    by (simp add: dbl)
  show "double 0.30000000000000004 \<noteq> double 0.3"
    by (simp add: dbl)
qed

text \<open>
  C10, amended. \<^verbatim>\<open>load\<close> validates nothing: for every amount, negative, zero,
  \<^verbatim>\<open>NaN\<close> and infinite included, it returns without throwing, sets the balance to the
  sum of the balance and the amount as doubles (for finite values the exact sum rounded
  to the nearest double) and leaves the journey as it is, and so does any sequence of
  loads; a negative amount takes the balance of a card that holds 2 below zero.
\<close>

theorem load_any_amount:
  "fst (load amount c) = None
   \<and> balance (snd (load amount c)) = num_add (balance c) amount
   \<and> currentJourney (snd (load amount c)) = currentJourney c
   \<and> balance (snd (load (Finite a) (c\<lparr>balance := Finite b\<rparr>))) = double (b + a)
   \<and> balance (snd (load NaN c)) = NaN
   \<and> run (map Load amounts) (h, c) =
       (rev (map (\<lambda>a. (Load a, None)) amounts) @ h,
        c\<lparr>balance := foldl num_add (balance c) amounts\<rparr>)
   \<and> load (Finite (- 5)) (newOysterCard (Finite 2)) = (None, newOysterCard (Finite (- 3)))
   \<and> num_lt (balance (newOysterCard (Finite (- 3)))) (Finite 0)"
proof (intro conjI)
  show "load (Finite (- 5)) (newOysterCard (Finite 2)) = (None, newOysterCard (Finite (- 3)))"
    by (simp add: load_def newOysterCard_def) (simp add: dbl)
  show "run (map Load amounts) (h, c) =
       (rev (map (\<lambda>a. (Load a, None)) amounts) @ h,
        c\<lparr>balance := foldl num_add (balance c) amounts\<rparr>)"
    by (rule run_loads)
qed (simp_all add: load_def newOysterCard_def)

end
